theory Spec2Isabelle
  imports Main "HOL-Library.Sublist"
begin

section \<open>The router service of ember-routing\<close>

text \<open>
  A shallow embedding of \<^verbatim>\<open>packages/ember-routing/lib/services/router.js\<close>: the four
  methods \<^verbatim>\<open>transitionTo\<close>, \<^verbatim>\<open>replaceWith\<close>, \<^verbatim>\<open>urlFor\<close> and \<^verbatim>\<open>isActive\<close> of
  \<^verbatim>\<open>RouterService\<close>. The service holds no state of its own. Everything it does goes
  through the router it was given (\<^verbatim>\<open>this._router\<close>) and through three helpers imported
  from \<^verbatim>\<open>../utils\<close>. Neither the router nor the helpers are part of the file, so the
  methods take them as parameters: a record of the router's primitives, each a function
  on the router's state, and a record of the helpers. The property \<^verbatim>\<open>_router\<close> is
  \<^verbatim>\<open>null\<close> until the router is injected; the methods are modelled with the router in
  place. The four read-only properties (\<^verbatim>\<open>currentRouteName\<close>, \<^verbatim>\<open>currentURL\<close>,
  \<^verbatim>\<open>location\<close>, \<^verbatim>\<open>rootURL\<close>) are aliases of the router's and are not modelled.
\<close>

subsection \<open>JavaScript values\<close>

text \<open>
  The values a caller can pass. Numbers are integers here. An object is the list of its
  own enumerable properties in the order they are stored. \<open>JDefaultValue\<close> is the
  symbol \<^verbatim>\<open>Ember.DEFAULT_VALUE\<close> that the documentation of \<^verbatim>\<open>urlFor\<close> mentions.
\<close>

datatype jsval =
    JUndefined
  | JNull
  | JBool bool
  | JNum int
  | JStr string
  | JDefaultValue
  | JArr "jsval list"
  | JObj "(string \<times> jsval) list"

datatype error = TypeError

text \<open>\<^verbatim>\<open>args[0]\<close>: reading past the end of an array gives \<^verbatim>\<open>undefined\<close>.\<close>

definition arg0 :: "jsval list \<Rightarrow> jsval" where
  "arg0 args = (case args of [] \<Rightarrow> JUndefined | a # _ \<Rightarrow> a)"

text \<open>Decimal rendering of an array index, as JavaScript names the keys of an array.\<close>

function string_of_nat :: "nat \<Rightarrow> string" where
  "string_of_nat n =
     (if n < 10 then [''0123456789'' ! n]
      else string_of_nat (n div 10) @ [''0123456789'' ! (n mod 10)])"
  by pat_completeness auto
termination
  by (relation "measure id") auto

declare string_of_nat.simps [simp del]

text \<open>
  The own enumerable properties of a value, as \<^verbatim>\<open>Object.keys\<close> and \<^verbatim>\<open>for ... in\<close>
  enumerate them: those of an object, the indices of an array, the indices of a string.
  Other primitives have none.
\<close>

definition own_props :: "jsval \<Rightarrow> (string \<times> jsval) list" where
  "own_props v =
     (case v of
        JObj ps \<Rightarrow> ps
      | JArr xs \<Rightarrow> zip (map string_of_nat [0..<length xs]) xs
      | JStr s \<Rightarrow> zip (map string_of_nat [0..<length s]) (map (\<lambda>c. JStr [c]) s)
      | _ \<Rightarrow> [])"

text \<open>
  \<^verbatim>\<open>Object.keys(v)\<close>: a \<^verbatim>\<open>TypeError\<close> on \<^verbatim>\<open>undefined\<close> and \<^verbatim>\<open>null\<close>, the own keys
  otherwise.
\<close>

definition object_keys :: "jsval \<Rightarrow> error + string list" where
  "object_keys v =
     (case v of
        JUndefined \<Rightarrow> Inl TypeError
      | JNull \<Rightarrow> Inl TypeError
      | _ \<Rightarrow> Inr (map fst (own_props v)))"

text \<open>\<^verbatim>\<open>v[k]\<close> on an own property: \<^verbatim>\<open>undefined\<close> when the key is absent.\<close>

definition get_prop :: "jsval \<Rightarrow> string \<Rightarrow> jsval" where
  "get_prop v k = (case map_of (own_props v) k of None \<Rightarrow> JUndefined | Some x \<Rightarrow> x)"

subsection \<open>The collaborators\<close>

text \<open>
  The result of \<^verbatim>\<open>extractRouteArgs\<close>, destructured by \<^verbatim>\<open>transitionTo\<close> and \<^verbatim>\<open>isActive\<close>
  as \<^verbatim>\<open>{ routeName, models, queryParams }\<close>.
\<close>

record route_args =
  routeName :: jsval
  models :: "jsval list"
  queryParams :: jsval

text \<open>The three imports from \<^verbatim>\<open>../utils\<close> (line 3).\<close>

record utils =
  shallowEqual :: "jsval \<Rightarrow> jsval \<Rightarrow> bool"
  resemblesURL :: "jsval \<Rightarrow> bool"
  extractRouteArgs :: "jsval list \<Rightarrow> route_args"

text \<open>
  A Transition is owned by the transition engine. The service touches two things of it:
  the flag \<^verbatim>\<open>_keepDefaultQueryParamValues\<close>, which it sets, and the URL method, which
  \<^verbatim>\<open>replaceWith\<close> sets through \<^verbatim>\<open>.method('replace')\<close>. The rest is \<open>engine_data\<close>.
\<close>

record 'h transition =
  engine_data :: 'h
  urlMethod :: string
  keepDefaultQueryParamValues :: bool

text \<open>
  The primitives the service calls on \<^verbatim>\<open>this._router\<close> and on
  \<^verbatim>\<open>this._router._routerMicrolib\<close>, over a router state \<open>'s\<close>. Each call may change
  that state, so each returns the state it leaves. \<open>prepareQueryParams\<close> returns no value
  in the source: it changes the query-parameter object it is given in place, and the
  first component here is that object as the call leaves it. \<open>state_queryParams\<close> is the
  property read \<^verbatim>\<open>routerMicrolib.state.queryParams\<close>. The transition primitives are
  given the query-parameter object as well; the service does not read it after that call.
\<close>

record ('h, 's) router =
  doURLTransition :: "string \<Rightarrow> jsval \<Rightarrow> 's \<Rightarrow> 'h transition \<times> 's"
  doTransition :: "jsval \<Rightarrow> jsval list \<Rightarrow> jsval \<Rightarrow> bool \<Rightarrow> 's \<Rightarrow> 'h transition \<times> 's"
  generate :: "jsval list \<Rightarrow> 's \<Rightarrow> string \<times> 's"
  isActiveIntent :: "jsval \<Rightarrow> jsval list \<Rightarrow> jsval \<Rightarrow> 's \<Rightarrow> bool \<times> 's"
  prepareQueryParams :: "jsval \<Rightarrow> jsval list \<Rightarrow> jsval \<Rightarrow> bool \<Rightarrow> 's \<Rightarrow> jsval \<times> 's"
  state_queryParams :: "'s \<Rightarrow> jsval"

text \<open>
  Modelled from the spec: \<^verbatim>\<open>Transition.method\<close>, which is not part of the file. Section
  4.4 says that \<^verbatim>\<open>replaceWith\<close> "mutates the returned Transition's method to replace";
  the call returns the transition it was called on.
\<close>

definition transition_method :: "string \<Rightarrow> 'h transition \<Rightarrow> 'h transition" where
  "transition_method m t = t\<lparr>urlMethod := m\<rparr>"

subsection \<open>The service\<close>

text \<open>\<^verbatim>\<open>transitionTo(...args)\<close>, lines 134 to 145.\<close>

definition transitionTo ::
  "utils \<Rightarrow> ('h, 's) router \<Rightarrow> jsval list \<Rightarrow> 's \<Rightarrow> 'h transition \<times> 's" where
  "transitionTo U R args s =
     (if resemblesURL U (arg0 args) then doURLTransition R ''transitionTo'' (arg0 args) s
      else
        let ra = extractRouteArgs U args;
            (transition, s') = doTransition R (routeName ra) (models ra) (queryParams ra) True s
        in (transition\<lparr>keepDefaultQueryParamValues := True\<rparr>, s'))"

text \<open>\<^verbatim>\<open>replaceWith()\<close>, lines 164 to 166.\<close>

definition replaceWith ::
  "utils \<Rightarrow> ('h, 's) router \<Rightarrow> jsval list \<Rightarrow> 's \<Rightarrow> 'h transition \<times> 's" where
  "replaceWith U R args s =
     (let (transition, s') = transitionTo U R args s
      in (transition_method ''replace'' transition, s'))"

text \<open>\<^verbatim>\<open>urlFor()\<close>, lines 234 to 236.\<close>

definition urlFor :: "('h, 's) router \<Rightarrow> jsval list \<Rightarrow> 's \<Rightarrow> string \<times> 's" where
  "urlFor R args s = generate R args s"

text \<open>
  What a call of \<^verbatim>\<open>isActive\<close> leaves behind: the value it returns (or the error it
  throws), the query-parameter object that \<^verbatim>\<open>extractRouteArgs\<close> handed out as it is after
  the call, and the router state.
\<close>

record 's isActive_outcome =
  returned :: "error + bool"
  queryParams_after :: jsval
  router_after :: 's

text \<open>\<^verbatim>\<open>isActive(...args)\<close>, lines 251 to 271.\<close>

definition isActive ::
  "utils \<Rightarrow> ('h, 's) router \<Rightarrow> jsval list \<Rightarrow> 's \<Rightarrow> 's isActive_outcome" where
  "isActive U R args s =
     (let ra = extractRouteArgs U args;
          (active, s1) = isActiveIntent R (routeName ra) (models ra) JNull s
      in if \<not> active then
           \<lparr>returned = Inr False, queryParams_after = queryParams ra, router_after = s1\<rparr>
         else
           case object_keys (queryParams ra) of
             Inl e \<Rightarrow> \<lparr>returned = Inl e, queryParams_after = queryParams ra, router_after = s1\<rparr>
           | Inr ks \<Rightarrow>
               if length ks > 0 then
                 let (qp, s2) =
                       prepareQueryParams R (routeName ra) (models ra) (queryParams ra) True s1
                 in \<lparr>returned = Inr (shallowEqual U qp (state_queryParams R s2)),
                     queryParams_after = qp, router_after = s2\<rparr>
               else
                 \<lparr>returned = Inr True, queryParams_after = queryParams ra, router_after = s1\<rparr>)"

subsection \<open>The helpers of \<^verbatim>\<open>../utils\<close>\<close>

text \<open>
  Modelled from the spec: \<^verbatim>\<open>resemblesURL\<close> of \<^verbatim>\<open>../utils\<close>, which is not part of the
  file. Section 4.2: a single string argument resembles a URL if it starts with
  \<^verbatim>\<open>/\<close>, with \<^verbatim>\<open>#\<close>, or with \<^verbatim>\<open>//\<close>. A value that is not a string does not.
\<close>

definition resemblesURL_spec :: "jsval \<Rightarrow> bool" where
  "resemblesURL_spec v =
     (case v of
        JStr s \<Rightarrow> prefix ''/'' s \<or> prefix ''#'' s \<or> prefix ''//'' s
      | _ \<Rightarrow> False)"

text \<open>A plain mapping with a \<^verbatim>\<open>queryParams\<close> key (section 4.1).\<close>

definition isOptionsHash :: "jsval \<Rightarrow> bool" where
  "isOptionsHash v = (case v of JObj ps \<Rightarrow> ''queryParams'' \<in> set (map fst ps) | _ \<Rightarrow> False)"

text \<open>
  Modelled from the spec: \<^verbatim>\<open>extractRouteArgs\<close> of \<^verbatim>\<open>../utils\<close>, which is not part of
  the file. Section 4.1: of the argument list \<^verbatim>\<open>[first, ...rest]\<close>, the route name is
  \<^verbatim>\<open>first\<close>; if the last element of \<^verbatim>\<open>rest\<close> is a plain mapping with a
  \<^verbatim>\<open>queryParams\<close> key, it is the options hash, it is removed from \<^verbatim>\<open>rest\<close> and its
  \<^verbatim>\<open>queryParams\<close> value is the query-parameter map; otherwise the query-parameter map is
  the empty mapping; what remains of \<^verbatim>\<open>rest\<close> is the models. The first element of an
  empty argument list is \<^verbatim>\<open>undefined\<close>.
\<close>

definition extractRouteArgs_spec :: "jsval list \<Rightarrow> route_args" where
  "extractRouteArgs_spec args =
     (case args of
        [] \<Rightarrow> \<lparr>routeName = JUndefined, models = [], queryParams = JObj []\<rparr>
      | first # rest \<Rightarrow>
          if rest \<noteq> [] \<and> isOptionsHash (last rest) then
            \<lparr>routeName = first, models = butlast rest,
             queryParams = get_prop (last rest) ''queryParams''\<rparr>
          else
            \<lparr>routeName = first, models = rest, queryParams = JObj []\<rparr>)"

text \<open>
  The call a normalized request stands for, in the convention
  \<^verbatim>\<open>routeName, ...models, options\<close> with the options hash written out.
\<close>

definition reconstruct :: "route_args \<Rightarrow> jsval list" where
  "reconstruct ra =
     routeName ra # models ra @ [JObj [(''queryParams'', queryParams ra)]]"

text \<open>
  The comparison of two query-parameter values of section 4.7, "primitive/array-shallow":
  two primitives are the same when they are equal; two arrays are the same when they
  have the same length and their elements are the same primitives, position by position;
  nothing is compared recursively. A nested structure is compared by identity in
  JavaScript, which a value here does not carry: it compares unequal to everything.
\<close>

definition is_primitive :: "jsval \<Rightarrow> bool" where
  "is_primitive v = (case v of JArr _ \<Rightarrow> False | JObj _ \<Rightarrow> False | _ \<Rightarrow> True)"

definition prim_eq :: "jsval \<Rightarrow> jsval \<Rightarrow> bool" where
  "prim_eq a b = (is_primitive a \<and> is_primitive b \<and> a = b)"

definition value_eq :: "jsval \<Rightarrow> jsval \<Rightarrow> bool" where
  "value_eq a b =
     (case a of
        JArr xs \<Rightarrow> (case b of JArr ys \<Rightarrow> list_all2 prim_eq xs ys | _ \<Rightarrow> False)
      | _ \<Rightarrow> prim_eq a b)"

text \<open>
  Modelled from the spec: \<^verbatim>\<open>shallowEqual\<close> of \<^verbatim>\<open>../utils\<close>, which is not part of the
  file. Section 4.7: two mappings are equivalent iff they have the same set of keys and,
  for each key, the same value under primitive/array-shallow comparison. The check runs
  over the keys of both mappings.
\<close>

definition shallowEqual_spec :: "jsval \<Rightarrow> jsval \<Rightarrow> bool" where
  "shallowEqual_spec a b =
     (let ka = map fst (own_props a); kb = map fst (own_props b)
      in list_all (\<lambda>k. k \<in> set kb) ka \<and> list_all (\<lambda>k. k \<in> set ka) kb \<and>
         list_all (\<lambda>k. value_eq (get_prop a k) (get_prop b k)) ka)"

definition spec_utils :: utils where
  "spec_utils =
     \<lparr>shallowEqual = shallowEqual_spec, resemblesURL = resemblesURL_spec,
      extractRouteArgs = extractRouteArgs_spec\<rparr>"

subsection \<open>URL generation\<close>

fun join_with :: "string \<Rightarrow> string list \<Rightarrow> string" where
  "join_with sep [] = []"
| "join_with sep [x] = x"
| "join_with sep (x # y # zs) = x @ sep @ join_with sep (y # zs)"

definition query_string :: "(jsval \<Rightarrow> string) \<Rightarrow> (string \<times> jsval) list \<Rightarrow> string" where
  "query_string render ps =
     (if ps = [] then []
      else ''?'' @ join_with ''&'' (map (\<lambda>(k, v). k @ ''='' @ render v) ps))"

text \<open>
  Modelled from the spec: \<^verbatim>\<open>generate\<close> of the router, which is not part of the file.
  Sections 4.5 and 6 and the documentation of \<^verbatim>\<open>urlFor\<close> (lines 186 to 222): the URL is
  the path of the route with its models, followed by the query parameters of the options
  hash as \<^verbatim>\<open>?key=value\<close> pairs joined by \<^verbatim>\<open>&\<close>. Every supplied key is written, whatever
  the defaults of the route are, except a key whose value is the sentinel
  \<^verbatim>\<open>Ember.DEFAULT_VALUE\<close>, which is left out. How a route becomes a path and how a value is
  written are the router's business: \<open>path\<close> and \<open>render\<close>.
\<close>

definition generate_spec ::
  "(jsval \<Rightarrow> jsval list \<Rightarrow> string) \<Rightarrow> (jsval \<Rightarrow> string) \<Rightarrow> jsval list \<Rightarrow> string" where
  "generate_spec path render args =
     (let ra = extractRouteArgs_spec args;
          ps = filter (\<lambda>(k, v). v \<noteq> JDefaultValue) (own_props (queryParams ra))
      in path (routeName ra) (models ra) @ query_string render ps)"

subsection \<open>A router in memory\<close>

text \<open>
  A small router to run the service against at concrete calls. Its state is the settled
  route with its models and resolved query parameters, and the list of the transitions
  it was asked for. Its \<open>prepareQueryParams\<close> does what section 6 says of the primitive:
  it completes the map it is given, in place, with the current value of every query
  parameter the caller did not supply.
\<close>

record nav_state =
  currentRoute :: jsval
  currentModels :: "jsval list"
  currentQueryParams :: jsval
  requested :: "jsval list list"

definition render_primitive :: "jsval \<Rightarrow> string" where
  "render_primitive v =
     (case v of
        JNum n \<Rightarrow> (if n < 0 then ''-'' @ string_of_nat (nat (- n)) else string_of_nat (nat n))
      | JStr s \<Rightarrow> s
      | JBool b \<Rightarrow> (if b then ''true'' else ''false'')
      | _ \<Rightarrow> [])"

definition route_path :: "jsval \<Rightarrow> jsval list \<Rightarrow> string" where
  "route_path rn ms =
     (case rn of JStr n \<Rightarrow> (if n = ''index'' then ''/'' else ''/'' @ n) | _ \<Rightarrow> ''/'')"

definition hydrate :: "jsval \<Rightarrow> jsval \<Rightarrow> jsval" where
  "hydrate qp cur =
     JObj (own_props qp @
           filter (\<lambda>(k, v). k \<notin> set (map fst (own_props qp))) (own_props cur))"

definition memory_router :: "(jsval list, nav_state) router" where
  "memory_router =
     \<lparr>doURLTransition = (\<lambda>kind url s.
        (\<lparr>engine_data = [JStr kind, url], urlMethod = ''update'',
          keepDefaultQueryParamValues = False\<rparr>,
         s\<lparr>requested := requested s @ [[JStr kind, url]]\<rparr>)),
      doTransition = (\<lambda>rn ms qp fromRouterService s.
        (\<lparr>engine_data = rn # ms @ [qp, JBool fromRouterService], urlMethod = ''update'',
          keepDefaultQueryParamValues = False\<rparr>,
         s\<lparr>requested := requested s @ [rn # ms @ [qp, JBool fromRouterService]]\<rparr>)),
      generate = (\<lambda>args s. (generate_spec route_path render_primitive args, s)),
      isActiveIntent = (\<lambda>rn ms reserved s.
        (rn = currentRoute s \<and> ms = currentModels s, s)),
      prepareQueryParams = (\<lambda>rn ms qp fromRouterService s.
        (hydrate qp (currentQueryParams s), s)),
      state_queryParams = currentQueryParams\<rparr>"

text \<open>The application is at \<^verbatim>\<open>blog\<close> with \<^verbatim>\<open>page=1\<close> and \<^verbatim>\<open>sort=asc\<close>.\<close>

definition at_blog :: nav_state where
  "at_blog =
     \<lparr>currentRoute = JStr ''blog'', currentModels = [],
      currentQueryParams = JObj [(''page'', JNum 1), (''sort'', JStr ''asc'')],
      requested = []\<rparr>"

text \<open>The call \<^verbatim>\<open>('blog', { queryParams: { page: n } })\<close>.\<close>

definition blog_page :: "int \<Rightarrow> jsval list" where
  "blog_page n = [JStr ''blog'', JObj [(''queryParams'', JObj [(''page'', JNum n)])]]"

section \<open>Properties\<close>

subsection \<open>Auxiliary facts\<close>

lemmas run_defs =
  spec_utils_def memory_router_def at_blog_def blog_page_def arg0_def
  resemblesURL_spec_def extractRouteArgs_spec_def isOptionsHash_def get_prop_def
  own_props_def object_keys_def hydrate_def shallowEqual_spec_def value_eq_def prim_eq_def
  is_primitive_def

lemma resemblesURL_spec_examples:
  "resemblesURL_spec (JStr ''/about'')" "resemblesURL_spec (JStr ''#/about'')"
  "resemblesURL_spec (JStr ''//cdn/x'')" "\<not> resemblesURL_spec (JStr ''about'')"
  "\<not> resemblesURL_spec (JStr ''blog.post'')" "\<not> resemblesURL_spec JUndefined"
  by (simp_all add: resemblesURL_spec_def)

lemma shallowEqual_spec_iff:
  "shallowEqual_spec a b \<longleftrightarrow>
     set (map fst (own_props a)) = set (map fst (own_props b)) \<and>
     (\<forall>k \<in> set (map fst (own_props a)). value_eq (get_prop a k) (get_prop b k))"
  unfolding shallowEqual_spec_def Let_def list_all_iff by blast

lemma sublist_join_with:
  "x \<in> set xs \<Longrightarrow> sublist x (join_with sep xs)"
proof (induction sep xs rule: join_with.induct)
  case (1 sep)
  then show ?case by simp
next
  case (2 sep y)
  then show ?case by simp
next
  case (3 sep y z zs)
  show ?case
  proof (cases "x = y")
    case True
    then show ?thesis by simp
  next
    case False
    with 3 have "sublist x (join_with sep (z # zs))" by simp
    then obtain p q where "join_with sep (z # zs) = p @ x @ q"
      by (auto simp: sublist_def)
    then have "join_with sep (y # z # zs) = (y @ sep @ p) @ x @ q" by simp
    then show ?thesis unfolding sublist_def by blast
  qed
qed

lemma sublist_query_string:
  assumes "(k, v) \<in> set ps"
  shows "sublist (k @ ''='' @ render v) (query_string render ps)"
proof -
  from assms have ne: "ps \<noteq> []" by auto
  from assms have "k @ ''='' @ render v \<in> set (map (\<lambda>(k, v). k @ ''='' @ render v) ps)"
    by force
  then have "sublist (k @ ''='' @ render v)
               (join_with ''&'' (map (\<lambda>(k, v). k @ ''='' @ render v) ps))"
    by (rule sublist_join_with)
  then obtain p q where
    "join_with ''&'' (map (\<lambda>(k, v). k @ ''='' @ render v) ps) = p @ (k @ ''='' @ render v) @ q"
    by (auto simp: sublist_def)
  with ne have "query_string render ps = (''?'' @ p) @ (k @ ''='' @ render v) @ q"
    by (simp add: query_string_def)
  then show ?thesis unfolding sublist_def by blast
qed

lemma get_prop_queryParams [simp]:
  "get_prop (JObj [(''queryParams'', q)]) ''queryParams'' = q"
  by (simp add: get_prop_def own_props_def)

lemma extractRouteArgs_spec_snoc:
  "extractRouteArgs_spec (r # ms @ [v]) =
     (if isOptionsHash v then
        \<lparr>routeName = r, models = ms, queryParams = get_prop v ''queryParams''\<rparr>
      else \<lparr>routeName = r, models = ms @ [v], queryParams = JObj []\<rparr>)"
  by (simp add: extractRouteArgs_spec_def)

lemma extractRouteArgs_spec_reconstruct:
  "extractRouteArgs_spec (reconstruct ra) = ra"
  by (simp add: reconstruct_def extractRouteArgs_spec_snoc isOptionsHash_def)

subsection \<open>\<^verbatim>\<open>transitionTo\<close> and \<^verbatim>\<open>replaceWith\<close>\<close>

text \<open>
  C1. \<^verbatim>\<open>transitionTo\<close> decides on its first argument. When the first argument resembles
  a URL, the call returns what \<^verbatim>\<open>_doURLTransition('transitionTo', args[0])\<close> returns,
  unchanged, and neither the argument normalizer nor the name-based primitive has any
  part in it: the result is the same whatever they are. Otherwise the call normalizes
  the arguments and returns what \<^verbatim>\<open>_doTransition(routeName, models, queryParams, true)\<close>
  returns, with the flag of C4 set, and the URL-based primitive has no part in it.
\<close>

theorem transitionTo_dispatch:
  "(if resemblesURL U (arg0 args)
    then (\<forall>ex d. transitionTo (U\<lparr>extractRouteArgs := ex\<rparr>) (R\<lparr>doTransition := d\<rparr>) args s
                   = doURLTransition R ''transitionTo'' (arg0 args) s)
    else (\<forall>u. transitionTo U (R\<lparr>doURLTransition := u\<rparr>) args s
                = (let ra = extractRouteArgs U args;
                       r = doTransition R (routeName ra) (models ra) (queryParams ra) True s
                   in ((fst r)\<lparr>keepDefaultQueryParamValues := True\<rparr>, snd r))))"
  by (simp add: transitionTo_def Let_def case_prod_beta)

text \<open>
  The two examples of section 8: \<^verbatim>\<open>transitionTo('/blog')\<close> goes to the URL-based
  primitive, \<^verbatim>\<open>transitionTo('blog.index')\<close> to the name-based one with no models and
  an empty query-parameter map.
\<close>

theorem transitionTo_dispatch_witness:
  "transitionTo spec_utils memory_router [JStr ''/blog''] at_blog =
     doURLTransition memory_router ''transitionTo'' (JStr ''/blog'') at_blog \<and>
   transitionTo spec_utils memory_router [JStr ''blog.index''] at_blog =
     (let r = doTransition memory_router (JStr ''blog.index'') [] (JObj []) True at_blog
      in ((fst r)\<lparr>keepDefaultQueryParamValues := True\<rparr>, snd r))"
  using transitionTo_dispatch [of spec_utils "[JStr ''/blog'']" memory_router at_blog]
    transitionTo_dispatch [of spec_utils "[JStr ''blog.index'']" memory_router at_blog]
  by (simp add: run_defs transitionTo_def)

text \<open>
  C4. On a name-based call (the first argument does not resemble a URL) the Transition
  that \<^verbatim>\<open>transitionTo\<close> returns is the one \<^verbatim>\<open>_doTransition\<close> returned, with
  \<^verbatim>\<open>_keepDefaultQueryParamValues\<close> set to true.
\<close>

theorem transitionTo_keeps_defaults:
  assumes "\<not> resemblesURL U (arg0 args)"
  shows "keepDefaultQueryParamValues (fst (transitionTo U R args s)) \<and>
         fst (transitionTo U R args s) =
           (fst (doTransition R (routeName (extractRouteArgs U args))
                   (models (extractRouteArgs U args))
                   (queryParams (extractRouteArgs U args)) True s))
             \<lparr>keepDefaultQueryParamValues := True\<rparr>"
  using assms by (simp add: transitionTo_def Let_def case_prod_beta)

theorem transitionTo_keeps_defaults_witness:
  "\<not> resemblesURL spec_utils (arg0 [JStr ''blog.index'']) \<and>
   \<not> keepDefaultQueryParamValues
       (fst (doTransition memory_router (JStr ''blog.index'') [] (JObj []) True at_blog)) \<and>
   keepDefaultQueryParamValues
     (fst (transitionTo spec_utils memory_router [JStr ''blog.index''] at_blog))"
proof -
  have name: "\<not> resemblesURL spec_utils (arg0 [JStr ''blog.index''])"
    by (simp add: run_defs)
  show ?thesis
    using name transitionTo_keeps_defaults [OF name, of memory_router at_blog]
    by (simp add: memory_router_def)
qed

text \<open>
  C5. \<^verbatim>\<open>replaceWith\<close> is \<^verbatim>\<open>transitionTo\<close> on the same arguments followed by
  \<^verbatim>\<open>.method('replace')\<close>: the Transition it returns has the method \<^verbatim>\<open>replace\<close> and is
  otherwise the Transition of \<^verbatim>\<open>transitionTo\<close>, the router is left in the same state, and
  the choice between the URL-based and the name-based primitive is that of
  \<^verbatim>\<open>transitionTo\<close>.
\<close>

theorem replaceWith_replaces:
  "urlMethod (fst (replaceWith U R args s)) = ''replace'' \<and>
   fst (replaceWith U R args s) = (fst (transitionTo U R args s))\<lparr>urlMethod := ''replace''\<rparr> \<and>
   snd (replaceWith U R args s) = snd (transitionTo U R args s) \<and>
   replaceWith U R args s =
     (if resemblesURL U (arg0 args) then
        (let r = doURLTransition R ''transitionTo'' (arg0 args) s
         in ((fst r)\<lparr>urlMethod := ''replace''\<rparr>, snd r))
      else
        (let ra = extractRouteArgs U args;
             r = doTransition R (routeName ra) (models ra) (queryParams ra) True s
         in ((fst r)\<lparr>urlMethod := ''replace'', keepDefaultQueryParamValues := True\<rparr>, snd r)))"
  by (simp add: replaceWith_def transitionTo_def transition_method_def Let_def case_prod_beta)

subsection \<open>\<^verbatim>\<open>isActive\<close>\<close>

text \<open>
  C6. When the structural check \<^verbatim>\<open>isActiveIntent(routeName, models, null)\<close> on the
  extracted route name and models fails, \<^verbatim>\<open>isActive\<close> returns false, and the query
  parameters play no part: the outcome is the same whatever the preparation step, the
  current query parameters and the equivalence checker are.
\<close>

theorem isActive_fails_closed:
  assumes "\<not> fst (isActiveIntent R (routeName (extractRouteArgs U args))
                    (models (extractRouteArgs U args)) JNull s)"
  shows "returned (isActive U R args s) = Inr False \<and>
         (\<forall>se p q. isActive (U\<lparr>shallowEqual := se\<rparr>)
                      (R\<lparr>prepareQueryParams := p, state_queryParams := q\<rparr>) args s
                    = isActive U R args s)"
  using assms by (simp add: isActive_def Let_def case_prod_beta)

text \<open>
  At \<^verbatim>\<open>blog\<close>, \<^verbatim>\<open>isActive('about', { queryParams: null })\<close> is false: the query-parameter
  value is never looked at. The same options on the active route throw.
\<close>

theorem isActive_fails_closed_witness:
  "\<not> fst (isActiveIntent memory_router (JStr ''about'') [] JNull at_blog) \<and>
   returned (isActive spec_utils memory_router
     [JStr ''about'', JObj [(''queryParams'', JNull)]] at_blog) = Inr False \<and>
   returned (isActive spec_utils memory_router
     [JStr ''blog'', JObj [(''queryParams'', JNull)]] at_blog) = Inl TypeError"
proof -
  have miss: "\<not> fst (isActiveIntent memory_router
      (routeName (extractRouteArgs spec_utils [JStr ''about'', JObj [(''queryParams'', JNull)]]))
      (models (extractRouteArgs spec_utils [JStr ''about'', JObj [(''queryParams'', JNull)]]))
      JNull at_blog)"
    by (simp add: run_defs)
  show ?thesis
    using isActive_fails_closed [OF miss]
    by (simp add: run_defs isActive_def)
qed

text \<open>
  C7. When the extracted query-parameter map is empty, \<^verbatim>\<open>isActive\<close> returns exactly the
  answer of the structural check, and neither the preparation step nor the current
  query parameters (nor the equivalence checker) play any part.
\<close>

theorem isActive_empty_queryParams:
  assumes "queryParams (extractRouteArgs U args) = JObj []"
  shows "returned (isActive U R args s) =
           Inr (fst (isActiveIntent R (routeName (extractRouteArgs U args))
                       (models (extractRouteArgs U args)) JNull s)) \<and>
         (\<forall>se p q. isActive (U\<lparr>shallowEqual := se\<rparr>)
                      (R\<lparr>prepareQueryParams := p, state_queryParams := q\<rparr>) args s
                    = isActive U R args s)"
  using assms by (simp add: isActive_def Let_def case_prod_beta object_keys_def own_props_def)

text \<open>
  At \<^verbatim>\<open>blog\<close> with \<^verbatim>\<open>page=1\<close> and \<^verbatim>\<open>sort=asc\<close>, \<^verbatim>\<open>isActive('blog')\<close> is true and
  \<^verbatim>\<open>isActive('about')\<close> is false.
\<close>

theorem isActive_empty_queryParams_witness:
  "queryParams (extractRouteArgs spec_utils [JStr ''blog'']) = JObj [] \<and>
   state_queryParams memory_router at_blog = JObj [(''page'', JNum 1), (''sort'', JStr ''asc'')] \<and>
   returned (isActive spec_utils memory_router [JStr ''blog''] at_blog) = Inr True \<and>
   returned (isActive spec_utils memory_router [JStr ''about''] at_blog) = Inr False"
proof -
  have e: "queryParams (extractRouteArgs spec_utils [JStr n]) = JObj []" for n
    by (simp add: run_defs)
  show ?thesis
    using isActive_empty_queryParams [OF e, of memory_router "''blog''" at_blog]
      isActive_empty_queryParams [OF e, of memory_router "''about''" at_blog]
    by (simp add: run_defs)
qed

text \<open>
  C2. On a call with a non-empty query-parameter map whose structural check succeeds,
  \<^verbatim>\<open>isActive\<close> hands the map to \<^verbatim>\<open>_prepareQueryParams\<close> with the flag
  \<^verbatim>\<open>fromRouterService\<close> set, and returns whether the map as that step leaves it and the
  query parameters of the current state are equivalent: they have the same set of keys
  and, for each key, the same value under the primitive/array-shallow comparison.
\<close>

theorem isActive_compares_queryParams:
  assumes "fst (isActiveIntent R (routeName (extractRouteArgs U args))
                  (models (extractRouteArgs U args)) JNull s)"
      and "object_keys (queryParams (extractRouteArgs U args)) = Inr ks" and "ks \<noteq> []"
      and "shallowEqual U = shallowEqual_spec"
      and "prepareQueryParams R (routeName (extractRouteArgs U args))
             (models (extractRouteArgs U args)) (queryParams (extractRouteArgs U args)) True
             (snd (isActiveIntent R (routeName (extractRouteArgs U args))
                    (models (extractRouteArgs U args)) JNull s)) = (qp, s2)"
  shows "returned (isActive U R args s) =
           Inr (set (map fst (own_props qp)) = set (map fst (own_props (state_queryParams R s2))) \<and>
                (\<forall>k \<in> set (map fst (own_props qp)).
                    value_eq (get_prop qp k) (get_prop (state_queryParams R s2) k)))"
  using assms by (simp add: isActive_def Let_def case_prod_beta shallowEqual_spec_iff)

text \<open>
  At \<^verbatim>\<open>blog\<close> with \<^verbatim>\<open>page=1\<close> and \<^verbatim>\<open>sort=asc\<close>: \<^verbatim>\<open>page: 1\<close> is active, \<^verbatim>\<open>page: 2\<close>
  is not.
\<close>

theorem isActive_compares_queryParams_witness:
  "returned (isActive spec_utils memory_router (blog_page 1) at_blog) = Inr True \<and>
   returned (isActive spec_utils memory_router (blog_page 2) at_blog) = Inr False"
proof -
  have active: "fst (isActiveIntent memory_router
      (routeName (extractRouteArgs spec_utils (blog_page n)))
      (models (extractRouteArgs spec_utils (blog_page n))) JNull at_blog)" for n
    by (simp add: run_defs)
  have keys: "object_keys (queryParams (extractRouteArgs spec_utils (blog_page n))) = Inr [''page'']"
    for n by (simp add: run_defs)
  have ne: "[''page''] \<noteq> []" by simp
  have se: "shallowEqual spec_utils = shallowEqual_spec" by (simp add: spec_utils_def)
  have prep: "prepareQueryParams memory_router
      (routeName (extractRouteArgs spec_utils (blog_page n)))
      (models (extractRouteArgs spec_utils (blog_page n)))
      (queryParams (extractRouteArgs spec_utils (blog_page n))) True
      (snd (isActiveIntent memory_router
         (routeName (extractRouteArgs spec_utils (blog_page n)))
         (models (extractRouteArgs spec_utils (blog_page n))) JNull at_blog))
      = (JObj [(''page'', JNum n), (''sort'', JStr ''asc'')], at_blog)" for n
    by (simp add: run_defs)
  show ?thesis
    using isActive_compares_queryParams [OF active keys ne se prep, of 1]
      isActive_compares_queryParams [OF active keys ne se prep, of 2]
    by (simp add: run_defs)
qed

text \<open>
  C3. \<^verbatim>\<open>isActive\<close> creates no Transition: the transition primitives have no part in its
  outcome. It changes the router's state only as far as \<^verbatim>\<open>isActiveIntent\<close> and
  \<^verbatim>\<open>_prepareQueryParams\<close> do, so it leaves the state as it found it when those two only
  read it. The caller's query-parameter map is left as it was when the structural check
  fails or the map has no keys; otherwise it is left as \<^verbatim>\<open>_prepareQueryParams\<close>, which
  works in place, wrote it.
\<close>

theorem isActive_effects:
  assumes "\<And>rn ms x t. snd (isActiveIntent R rn ms x t) = t"
      and "\<And>rn ms q b t. snd (prepareQueryParams R rn ms q b t) = t"
  shows "router_after (isActive U R args s) = s \<and>
         (\<forall>d u. isActive U (R\<lparr>doTransition := d, doURLTransition := u\<rparr>) args s
                  = isActive U R args s) \<and>
         queryParams_after (isActive U R args s) =
           (let ra = extractRouteArgs U args
            in if fst (isActiveIntent R (routeName ra) (models ra) JNull s) \<and>
                  (case object_keys (queryParams ra) of Inl e \<Rightarrow> False | Inr ks \<Rightarrow> ks \<noteq> [])
               then fst (prepareQueryParams R (routeName ra) (models ra) (queryParams ra) True s)
               else queryParams ra)"
proof -
  have s1: "snd (isActiveIntent R (routeName (extractRouteArgs U args))
                   (models (extractRouteArgs U args)) JNull s) = s"
    by (rule assms(1))
  show ?thesis
    by (simp add: isActive_def Let_def case_prod_beta s1 assms(2) split: sum.splits)
qed

theorem isActive_effects_witness:
  "router_after (isActive spec_utils memory_router (blog_page 1) at_blog) = at_blog \<and>
   queryParams_after (isActive spec_utils memory_router (blog_page 1) at_blog) =
     JObj [(''page'', JNum 1), (''sort'', JStr ''asc'')] \<and>
   queryParams_after (isActive spec_utils memory_router [JStr ''blog''] at_blog) = JObj []"
proof -
  have a: "snd (isActiveIntent memory_router rn ms x t) = t" for rn ms x t
    by (simp add: memory_router_def)
  have b: "snd (prepareQueryParams memory_router rn ms q f t) = t" for rn ms q f t
    by (simp add: memory_router_def)
  show ?thesis
    using isActive_effects [of memory_router spec_utils "blog_page 1" at_blog, OF a b]
      isActive_effects [of memory_router spec_utils "[JStr ''blog'']" at_blog, OF a b]
    by (simp add: run_defs)
qed

text \<open>
  The call \<^verbatim>\<open>isActive('blog', { queryParams: { page: 1 } })\<close> at \<^verbatim>\<open>blog\<close> with
  \<^verbatim>\<open>page=1\<close> and \<^verbatim>\<open>sort=asc\<close>: the caller passed a map with the one key \<^verbatim>\<open>page\<close> and
  finds the key \<^verbatim>\<open>sort\<close> in it afterwards.
\<close>

theorem isActive_changes_queryParams_counterexample:
  "queryParams (extractRouteArgs spec_utils (blog_page 1)) = JObj [(''page'', JNum 1)] \<and>
   queryParams_after (isActive spec_utils memory_router (blog_page 1) at_blog) =
     JObj [(''page'', JNum 1), (''sort'', JStr ''asc'')] \<and>
   queryParams_after (isActive spec_utils memory_router (blog_page 1) at_blog) \<noteq>
     queryParams (extractRouteArgs spec_utils (blog_page 1))"
  by (simp add: isActive_def run_defs)

text \<open>
  C8. \<^verbatim>\<open>isActive\<close> and \<^verbatim>\<open>urlFor\<close> do not classify their first argument. Whatever the
  classifier \<^verbatim>\<open>resemblesURL\<close> answers and whatever the URL-based transition primitive
  does, \<^verbatim>\<open>isActive\<close> is the structural check on the extracted route name and models
  followed by the comparison of the query parameters, and \<^verbatim>\<open>urlFor\<close> is \<^verbatim>\<open>generate\<close>
  on the argument list. The arguments reach \<^verbatim>\<open>isActive\<close> through the normalizer only:
  two calls with the same normalized request have the same outcome. With the normalizer
  of the specification the route name is the first argument as it stands, whether or not
  it begins with \<^verbatim>\<open>/\<close>, \<^verbatim>\<open>#\<close> or \<^verbatim>\<open>//\<close>.
\<close>

theorem classification_only_in_transitionTo:
  assumes "extractRouteArgs U args = extractRouteArgs U args'"
  shows
  "isActive (U\<lparr>resemblesURL := c\<rparr>) (R\<lparr>doURLTransition := u\<rparr>) args s =
     (let ra = extractRouteArgs U args;
          a = isActiveIntent R (routeName ra) (models ra) JNull s
      in if \<not> fst a then
           \<lparr>returned = Inr False, queryParams_after = queryParams ra, router_after = snd a\<rparr>
         else
           case object_keys (queryParams ra) of
             Inl e \<Rightarrow>
               \<lparr>returned = Inl e, queryParams_after = queryParams ra, router_after = snd a\<rparr>
           | Inr ks \<Rightarrow>
               if ks = [] then
                 \<lparr>returned = Inr True, queryParams_after = queryParams ra, router_after = snd a\<rparr>
               else
                 let p = prepareQueryParams R (routeName ra) (models ra) (queryParams ra) True (snd a)
                 in \<lparr>returned = Inr (shallowEqual U (fst p) (state_queryParams R (snd p))),
                     queryParams_after = fst p, router_after = snd p\<rparr>) \<and>
   urlFor (R\<lparr>doURLTransition := u\<rparr>) args s = generate R args s \<and>
   isActive U R args s = isActive U R args' s \<and>
   isActive (U\<lparr>extractRouteArgs := (\<lambda>x. extractRouteArgs U args)\<rparr>) R other s = isActive U R args s \<and>
   routeName (extractRouteArgs_spec (first # rest)) = first"
proof -
  have "routeName (extractRouteArgs_spec (first # rest)) = first"
    by (simp add: extractRouteArgs_spec_def)
  moreover have "isActive U R args s = isActive U R args' s"
    using assms by (simp add: isActive_def)
  moreover have "urlFor (R\<lparr>doURLTransition := u\<rparr>) args s = generate R args s"
    by (simp add: urlFor_def)
  moreover have
    "isActive (U\<lparr>extractRouteArgs := (\<lambda>x. extractRouteArgs U args)\<rparr>) R other s = isActive U R args s"
    by (simp add: isActive_def Let_def case_prod_beta split: sum.splits)
  ultimately show ?thesis
    by (simp add: isActive_def Let_def case_prod_beta split: sum.splits)
qed

text \<open>
  With the router at the route named \<^verbatim>\<open>/blog\<close>, \<^verbatim>\<open>isActive('/blog')\<close> is true, with
  or without an empty options hash; at \<^verbatim>\<open>blog\<close> it is false. \<^verbatim>\<open>urlFor('/blog')\<close> is
  what \<^verbatim>\<open>generate\<close> makes of the route name \<^verbatim>\<open>/blog\<close>.
\<close>

theorem classification_only_in_transitionTo_witness:
  "extractRouteArgs spec_utils [JStr ''/blog''] =
     extractRouteArgs spec_utils [JStr ''/blog'', JObj [(''queryParams'', JObj [])]] \<and>
   routeName (extractRouteArgs spec_utils [JStr ''/blog'']) = JStr ''/blog'' \<and>
   returned (isActive spec_utils memory_router [JStr ''/blog'']
               (at_blog\<lparr>currentRoute := JStr ''/blog''\<rparr>)) = Inr True \<and>
   returned (isActive spec_utils memory_router [JStr ''/blog''] at_blog) = Inr False \<and>
   returned (isActive spec_utils memory_router [JStr ''/blog'', JObj [(''queryParams'', JObj [])]]
               (at_blog\<lparr>currentRoute := JStr ''/blog''\<rparr>)) = Inr True \<and>
   urlFor memory_router [JStr ''/blog''] at_blog =
     generate memory_router [JStr ''/blog''] at_blog \<and>
   fst (urlFor memory_router [JStr ''/blog''] at_blog) = ''//blog''"
proof -
  have same: "extractRouteArgs spec_utils [JStr ''/blog''] =
      extractRouteArgs spec_utils [JStr ''/blog'', JObj [(''queryParams'', JObj [])]]"
    by (simp add: run_defs)
  note fact = classification_only_in_transitionTo [OF same, of resemblesURL_spec "doURLTransition memory_router" memory_router]
  have both: "isActive spec_utils memory_router [JStr ''/blog''] t =
      isActive spec_utils memory_router [JStr ''/blog'', JObj [(''queryParams'', JObj [])]] t"
    for t by (rule fact [THEN conjunct2, THEN conjunct2, THEN conjunct1])
  have url: "urlFor memory_router [JStr ''/blog''] at_blog =
      generate memory_router [JStr ''/blog''] at_blog"
    using fact [of at_blog, THEN conjunct2, THEN conjunct1] by (simp add: memory_router_def)
  have name: "routeName (extractRouteArgs spec_utils [JStr ''/blog'']) = JStr ''/blog''"
    by (simp add: run_defs)
  have there: "returned (isActive spec_utils memory_router [JStr ''/blog'']
      (at_blog\<lparr>currentRoute := JStr ''/blog''\<rparr>)) = Inr True"
    by (simp add: isActive_def run_defs)
  have elsewhere: "returned (isActive spec_utils memory_router [JStr ''/blog''] at_blog) = Inr False"
    by (simp add: isActive_def run_defs)
  have path: "fst (urlFor memory_router [JStr ''/blog''] at_blog) = ''//blog''"
    by (simp add: urlFor_def generate_spec_def query_string_def route_path_def run_defs)
  from there have "returned (isActive spec_utils memory_router
      [JStr ''/blog'', JObj [(''queryParams'', JObj [])]]
      (at_blog\<lparr>currentRoute := JStr ''/blog''\<rparr>)) = Inr True"
    by (simp only: both)
  with same name there elsewhere url path show ?thesis by (intro conjI)
qed

subsection \<open>\<^verbatim>\<open>urlFor\<close>\<close>

text \<open>
  C9. \<^verbatim>\<open>urlFor\<close> returns what \<^verbatim>\<open>generate\<close> returns on the same argument list, for every
  router. With the URL generation of the specification and an options hash as last
  argument, every key of its \<^verbatim>\<open>queryParams\<close> is written into the URL as \<^verbatim>\<open>key=value\<close>,
  in every state of the router, except a key whose value is the sentinel
  \<^verbatim>\<open>Ember.DEFAULT_VALUE\<close>: the URL is then the one of the call without that key.
\<close>

theorem urlFor_forwards_to_generate:
  assumes "generate R = (\<lambda>args s. (generate_spec path render args, s))"
      and "args = r # ms @ [JObj [(''queryParams'', JObj ps)]]"
      and "(k, v) \<in> set ps"
  shows "(\<forall>R' args' s'. urlFor (R' :: ('h, 's) router) args' s' = generate R' args' s') \<and>
         (if v = JDefaultValue then
            fst (urlFor R args s) =
              fst (urlFor R (r # ms @ [JObj [(''queryParams'', JObj (removeAll (k, v) ps))]]) s)
          else sublist (k @ ''='' @ render v) (fst (urlFor R args s)))"
proof -
  have url: "fst (urlFor R (r # ms @ [JObj [(''queryParams'', JObj qs)]]) s) =
      path r ms @ query_string render (filter (\<lambda>(k, v). v \<noteq> JDefaultValue) qs)" for qs
    by (simp add: urlFor_def assms(1) generate_spec_def extractRouteArgs_spec_snoc
        isOptionsHash_def own_props_def)
  have "sublist (k @ ''='' @ render v) (fst (urlFor R args s))" if "v \<noteq> JDefaultValue"
  proof -
    from that assms(3) have "(k, v) \<in> set (filter (\<lambda>(k, v). v \<noteq> JDefaultValue) ps)" by simp
    then have "sublist (k @ ''='' @ render v)
                 (query_string render (filter (\<lambda>(k, v). v \<noteq> JDefaultValue) ps))"
      by (rule sublist_query_string)
    then obtain p q where
      "query_string render (filter (\<lambda>(k, v). v \<noteq> JDefaultValue) ps) = p @ (k @ ''='' @ render v) @ q"
      by (auto simp: sublist_def)
    then have "fst (urlFor R args s) = (path r ms @ p) @ (k @ ''='' @ render v) @ q"
      by (simp add: url assms(2))
    then show ?thesis unfolding sublist_def by blast
  qed
  moreover have "filter (\<lambda>(k, v). v \<noteq> JDefaultValue) (removeAll (k, v) ps) =
                 filter (\<lambda>(k, v). v \<noteq> JDefaultValue) ps" if "v = JDefaultValue"
    using that by (induction ps) auto
  ultimately have "if v = JDefaultValue then
            fst (urlFor R args s) =
              fst (urlFor R (r # ms @ [JObj [(''queryParams'', JObj (removeAll (k, v) ps))]]) s)
          else sublist (k @ ''='' @ render v) (fst (urlFor R args s))"
    by (simp add: url assms(2))
  moreover have "\<forall>R' args' s'. urlFor (R' :: ('h, 's) router) args' s' = generate R' args' s'"
    by (simp add: urlFor_def)
  ultimately show ?thesis by (rule conjI [rotated])
qed

text \<open>
  The example of section 8 and of the documentation of \<^verbatim>\<open>urlFor\<close>:
  \<^verbatim>\<open>urlFor('index', { queryParams: { page: 0 } })\<close> is \<^verbatim>\<open>/?page=0\<close>, and with
  \<^verbatim>\<open>Ember.DEFAULT_VALUE\<close> for \<^verbatim>\<open>page\<close> it is \<^verbatim>\<open>/\<close>.
\<close>

theorem urlFor_forwards_to_generate_witness:
  "fst (urlFor memory_router
     [JStr ''index'', JObj [(''queryParams'', JObj [(''page'', JNum 0)])]] at_blog) = ''/?page=0'' \<and>
   sublist ''page=0'' (fst (urlFor memory_router
     [JStr ''index'', JObj [(''queryParams'', JObj [(''page'', JNum 0)])]] at_blog)) \<and>
   fst (urlFor memory_router
     [JStr ''index'', JObj [(''queryParams'', JObj [(''page'', JDefaultValue)])]] at_blog) = ''/''"
proof -
  have g: "generate memory_router = (\<lambda>args s. (generate_spec route_path render_primitive args, s))"
    by (simp add: memory_router_def)
  have shape: "[JStr ''index'', JObj [(''queryParams'', JObj [(''page'', v)])]] =
      JStr ''index'' # [] @ [JObj [(''queryParams'', JObj [(''page'', v)])]]" for v
    by simp
  have mem: "(''page'', v) \<in> set [(''page'', v)]" for v :: jsval by simp
  have r0: "render_primitive (JNum 0) = ''0''"
    by (simp add: render_primitive_def string_of_nat.simps [of 0])
  show ?thesis
    using urlFor_forwards_to_generate [OF g shape mem, of "JNum 0" at_blog]
      urlFor_forwards_to_generate [OF g shape mem, of JDefaultValue at_blog]
    by (simp add: urlFor_def g generate_spec_def query_string_def route_path_def r0 run_defs)
qed

subsection \<open>Argument normalization\<close>

text \<open>
  C10. After the route name, the last argument is taken as the options hash exactly when
  it is a plain mapping with a \<^verbatim>\<open>queryParams\<close> key; a last argument without that key is
  the last model. Without an options hash the query-parameter map is the empty mapping.
  Normalization is a round trip: writing a normalized request with the models
  \<^verbatim>\<open>[m1, m2]\<close> back as a call and normalizing that call gives the same route name, models
  and query-parameter map, and normalizing twice is normalizing once.
\<close>

theorem extractRouteArgs_normalization:
  "extractRouteArgs_spec (r # ms @ [v]) =
     (if isOptionsHash v then
        \<lparr>routeName = r, models = ms, queryParams = get_prop v ''queryParams''\<rparr>
      else \<lparr>routeName = r, models = ms @ [v], queryParams = JObj []\<rparr>) \<and>
   isOptionsHash v = (\<exists>ps. v = JObj ps \<and> ''queryParams'' \<in> fst ` set ps) \<and>
   extractRouteArgs_spec [r] = \<lparr>routeName = r, models = [], queryParams = JObj []\<rparr> \<and>
   extractRouteArgs_spec (reconstruct \<lparr>routeName = r, models = [m1, m2], queryParams = q\<rparr>) =
     \<lparr>routeName = r, models = [m1, m2], queryParams = q\<rparr> \<and>
   extractRouteArgs_spec (reconstruct (extractRouteArgs_spec args)) = extractRouteArgs_spec args"
proof -
  have "isOptionsHash v = (\<exists>ps. v = JObj ps \<and> ''queryParams'' \<in> fst ` set ps)"
    by (cases v) (simp_all add: isOptionsHash_def)
  moreover have "extractRouteArgs_spec [r] = \<lparr>routeName = r, models = [], queryParams = JObj []\<rparr>"
    by (simp add: extractRouteArgs_spec_def)
  ultimately show ?thesis
    by (simp only: extractRouteArgs_spec_snoc extractRouteArgs_spec_reconstruct simp_thms)
qed

end
